theory Spec2Isabelle
  imports Main "HOL-Library.AList" "HOL-Library.Multiset"
begin

section \<open>JavaScript values of the gateway\<close>

text \<open>
  The gateway (\<^verbatim>\<open>node-gammu-json\<close>) keeps its messages in open JavaScript objects.
  The fields the code reads are given types that hold every value the code tells apart.

  A timestamp field is absent or falsy (\<open>TAbsent\<close>: missing, \<^verbatim>\<open>false\<close> or the empty
  string), the string the helper printed (\<open>TRaw t\<close>, written by the instant \<open>t\<close> it
  denotes), or the \<^verbatim>\<open>moment\<close> object \<^verbatim>\<open>_transform_received_message\<close> makes of it
  (\<open>TMoment t\<close>). Only a moment object has the method \<^verbatim>\<open>isBefore\<close>. The moment library
  is not part of the gateway: its parser is taken to give every printed timestamp its
  instant, and strings it cannot parse are left out.
\<close>

datatype tsval = TAbsent | TRaw int | TMoment int

text \<open>
  A location is the modem's slot number, \<^verbatim>\<open>false\<close> once
  \<^verbatim>\<open>_schedule_message_for_deletion\<close> has cleared it, or the array a reassembled
  message carries.
\<close>

datatype locval = LNum int | LFalse | LArr "locval list"

text \<open>
  The \<^verbatim>\<open>id\<close> field: missing, \<^verbatim>\<open>false\<close> (a reassembled message), or a string. The
  code compares two ids with \<^verbatim>\<open>==\<close>, which is equality of these values except that a
  string that converts to the number 0 equals \<^verbatim>\<open>false\<close>; the ids the transform builds
  hold two \<^verbatim>\<open>-\<close> signs after the sender and never convert to a number, so the model
  compares with \<open>=\<close>.
\<close>

datatype idval = IdUndefined | IdFalse | IdStr string

text \<open>Option values handed to \<^verbatim>\<open>create\<close>: integers stand for numbers.\<close>

datatype jsval = JUndefined | JNull | JBool bool | JNum int

fun truthy :: "jsval \<Rightarrow> bool" where
  "truthy JUndefined = False"
| "truthy JNull = False"
| "truthy (JBool b) = b"
| "truthy (JNum n) = (n \<noteq> 0)"

fun isNumber :: "jsval \<Rightarrow> bool" where
  "isNumber (JNum n) = True"
| "isNumber v = False"

datatype error =
    TypeError
  | MissingFirstEntry
  | MissingEntry
  | NonArrayYielded
  | FailedToTransmit
  | NoReceiveHandler
  | SubprocessError
  | HandlerError

subsection \<open>Numbers as property names\<close>

text \<open>
  A property name is a string: \<^verbatim>\<open>index[10]\<close> and \<^verbatim>\<open>index["10"]\<close> are the same slot,
  and \<^verbatim>\<open>index[false]\<close> is the slot \<^verbatim>\<open>"false"\<close>. \<open>show_int\<close> is JavaScript's
  conversion of an integer to its decimal string.
\<close>

function show_nat :: "nat \<Rightarrow> string" where
  "show_nat n =
     (if n < 10 then [''0123456789'' ! n]
      else show_nat (n div 10) @ [''0123456789'' ! (n mod 10)])"
  by pat_completeness auto
termination
  by (relation "measure id") auto

declare show_nat.simps [simp del]

definition show_int :: "int \<Rightarrow> string" where
  "show_int i = (if i < 0 then CHR ''-'' # show_nat (nat (- i)) else show_nat (nat i))"

fun join :: "string \<Rightarrow> string list \<Rightarrow> string" where
  "join sep [] = []"
| "join sep [x] = x"
| "join sep (x # y # ys) = x @ sep @ join sep (y # ys)"

fun key_of :: "locval \<Rightarrow> string" where
  "key_of (LNum n) = show_int n"
| "key_of LFalse = ''false''"
| "key_of (LArr xs) = join '','' (map key_of xs)"

section \<open>Messages and the object store\<close>

text \<open>
  A message record. \<open>msg_from\<close> and \<open>msg_id\<close> are the fields \<^verbatim>\<open>from\<close> and \<^verbatim>\<open>id\<close>.
  \<open>segment\<close> and \<open>total_segments\<close> are \<open>None\<close> when the field is not a number
  (\<^verbatim>\<open>segment\<close> is \<^verbatim>\<open>false\<close> on a reassembled message). \<open>udh\<close> is \<open>None\<close> when the
  field is missing or \<^verbatim>\<open>false\<close>. \<open>parts\<close> holds references, and is empty when the
  field is missing.
\<close>

record msg =
  location :: locval
  msg_from :: string
  content :: string
  udh :: "int option"
  segment :: "int option"
  total_segments :: "int option"
  timestamp :: tsval
  smsc_timestamp :: tsval
  msg_id :: idval
  parts :: "nat list"

text \<open>
  Message objects are shared: the deletion index, the segment cache, the inbound queue and
  a composite's \<^verbatim>\<open>parts\<close> all hold references to the same objects, and
  \<^verbatim>\<open>_schedule_message_for_deletion\<close> writes to an object after it has stored a
  reference to it. The store is a list of objects; a reference is a position in it, and a
  new object is appended at the end (its reference is the length of the store before).
\<close>

type_synonym heap = "msg list"

section \<open>The reassembly engine\<close>

text \<open>
  \<^verbatim>\<open>a.isBefore(b)\<close>. The receiver must be a moment object; on anything else the call
  is a TypeError. The argument is read by the moment library: a moment object or the
  helper's string give their instant, and a missing argument gives the current time,
  the parameter \<open>now\<close>.
\<close>

fun is_before :: "int \<Rightarrow> tsval \<Rightarrow> tsval \<Rightarrow> error + bool" where
  "is_before now (TMoment a) (TMoment b) = Inr (a < b)"
| "is_before now (TMoment a) (TRaw b) = Inr (a < b)"
| "is_before now (TMoment a) TAbsent = Inr (a < now)"
| "is_before now (TRaw a) b = Inl TypeError"
| "is_before now TAbsent b = Inl TypeError"

text \<open>
  The per-message reassembly index: a JavaScript object keyed by segment number, in the
  order the keys were added. Its values are references to segments. A candidate is
  \<open>None\<close> when it is not an object.
\<close>

type_synonym rindex = "(int \<times> nat) list"

definition is_valid :: "heap \<Rightarrow> nat \<Rightarrow> nat option \<Rightarrow> bool" where
  "is_valid h message c =
     (case c of
        None \<Rightarrow> False
      | Some r \<Rightarrow>
          msg_id (h ! r) = msg_id (h ! message) \<and>
          (case (segment (h ! r), total_segments (h ! message)) of
             (Some s, Some tot) \<Rightarrow> s \<le> tot \<and> total_segments (h ! r) = Some tot
           | _ \<Rightarrow> False))"

definition add_to_reassembly_index ::
  "int \<Rightarrow> heap \<Rightarrow> rindex \<Rightarrow> nat \<Rightarrow> nat option \<Rightarrow> error + (bool \<times> rindex)" where
  "add_to_reassembly_index now h idx message c =
     (if \<not> is_valid h message c then Inr (False, idx)
      else
        (case c of
           None \<Rightarrow> Inr (False, idx)
         | Some r \<Rightarrow>
             (case segment (h ! r) of
                None \<Rightarrow> Inr (False, idx)
              | Some s \<Rightarrow>
                  (case map_of idx s of
                     None \<Rightarrow> Inr (True, AList.update s r idx)
                   | Some occupant \<Rightarrow>
                       (case is_before now (timestamp (h ! r)) (timestamp (h ! occupant)) of
                          Inl e \<Rightarrow> Inl e
                        | Inr True \<Rightarrow> Inr (True, idx)
                        | Inr False \<Rightarrow> Inr (True, AList.update s r idx))))))"

text \<open>
  What \<^verbatim>\<open>return_segments\<close> yields: an array, \<^verbatim>\<open>undefined\<close> or \<^verbatim>\<open>null\<close>
  (\<open>SNullish\<close>, whose \<^verbatim>\<open>length\<close> cannot be read), or another value that is not an
  array (\<open>SOther truthy\<close>, whose \<^verbatim>\<open>length\<close> is \<^verbatim>\<open>undefined\<close>, so the loop does not
  run).
\<close>

datatype segs = SArray "nat option list" | SNullish | SOther bool

fun add_all :: "int \<Rightarrow> heap \<Rightarrow> nat \<Rightarrow> nat option list \<Rightarrow> rindex \<Rightarrow> error + rindex" where
  "add_all now h message [] idx = Inr idx"
| "add_all now h message (c # cs) idx =
     (case add_to_reassembly_index now h idx message c of
        Inl e \<Rightarrow> Inl e
      | Inr (ok, idx') \<Rightarrow> add_all now h message cs idx')"

definition build_reassembly_index :: "int \<Rightarrow> heap \<Rightarrow> nat \<Rightarrow> segs \<Rightarrow> error + rindex" where
  "build_reassembly_index now h message segments =
     (case segments of
        SNullish \<Rightarrow> Inl TypeError
      | SOther t \<Rightarrow> add_all now h message [Some message] []
      | SArray cs \<Rightarrow> add_all now h message (cs @ [Some message]) [])"

text \<open>
  \<^verbatim>\<open>if (rv[k] && rv[k].isBefore(segment[k])) rv[k] = segment[k]\<close>, for one of the two
  timestamp fields.
\<close>

fun ts_truthy :: "tsval \<Rightarrow> bool" where
  "ts_truthy TAbsent = False"
| "ts_truthy (TRaw t) = True"
| "ts_truthy (TMoment t) = True"

definition use_latest :: "int \<Rightarrow> tsval \<Rightarrow> tsval \<Rightarrow> error + tsval" where
  "use_latest now cur seg =
     (if ts_truthy cur then
        (case is_before now cur seg of
           Inl e \<Rightarrow> Inl e
         | Inr b \<Rightarrow> Inr (if b then seg else cur))
      else Inr cur)"

fun push_loc :: "locval \<Rightarrow> locval \<Rightarrow> locval" where
  "push_loc (LArr ls) l = LArr (ls @ [l])"
| "push_loc other l = other"

text \<open>The loop over the slots \<^verbatim>\<open>2 .. rv.total_segments\<close>; \<open>rv\<close> is the composite so far.\<close>

fun append_segments :: "int \<Rightarrow> heap \<Rightarrow> rindex \<Rightarrow> int list \<Rightarrow> msg \<Rightarrow> error + msg" where
  "append_segments now h idx [] rv = Inr rv"
| "append_segments now h idx (i # is) rv =
     (case map_of idx i of
        None \<Rightarrow> Inl MissingEntry
      | Some r \<Rightarrow>
          (case use_latest now (timestamp rv) (timestamp (h ! r)) of
             Inl e \<Rightarrow> Inl e
           | Inr ts \<Rightarrow>
               (case use_latest now (smsc_timestamp rv) (smsc_timestamp (h ! r)) of
                  Inl e \<Rightarrow> Inl e
                | Inr sts \<Rightarrow>
                    append_segments now h idx is
                      (rv\<lparr>content := content rv @ content (h ! r),
                          parts := parts rv @ [r],
                          location := push_loc (location rv) (location (h ! r)),
                          timestamp := ts,
                          smsc_timestamp := sts\<rparr>))))"

definition create_message_from_reassembly_index ::
  "int \<Rightarrow> heap \<Rightarrow> rindex \<Rightarrow> error + msg" where
  "create_message_from_reassembly_index now h idx =
     (case map_of idx 1 of
        None \<Rightarrow> Inl MissingFirstEntry
      | Some first \<Rightarrow>
          append_segments now h idx
            (case total_segments (h ! first) of None \<Rightarrow> [] | Some t \<Rightarrow> [2..t])
            ((h ! first)\<lparr>msg_id := IdFalse,
                          location := LArr [location (h ! first)],
                          segment := None,
                          parts := [first]\<rparr>))"

section \<open>The instance\<close>

text \<open>
  An outbound item, as \<^verbatim>\<open>send\<close> builds it: \<open>out_to\<close> and \<open>out_content\<close> are the
  fields \<^verbatim>\<open>to\<close> and \<^verbatim>\<open>content\<close>; \<open>callback\<close> says whether a callback function was
  given.
\<close>

record outbound =
  out_to :: string
  out_content :: string
  tx_attempts :: int
  callback :: bool

text \<open>One entry of the helper's reply to \<^verbatim>\<open>send\<close>: \<^verbatim>\<open>{ index, result }\<close>.\<close>

record tx_result =
  r_index :: int
  r_result :: string

text \<open>
  What the instance calls on its embedder and on the operating system, in order. A handler
  is told the message as it is at the time of the call.
\<close>

datatype event =
    Spawn "string list"
  | EvReceive msg
  | EvReceiveSegment msg
  | EvReturnSegments idval
  | EvTransmit outbound tx_result
  | EvCallback "error option" outbound
  | EvTransmitError error outbound
  | EvReceiveError error msg
  | EvGlobalError error

text \<open>
  The embedder's handlers. A handler that takes a completion callback is a function that
  gives what it calls the callback with: \<open>None\<close> for no error. \<^verbatim>\<open>return_segments\<close>
  gives an error or the value it yields; the objects in an array it yields are its own
  (\<open>None\<close> for an element that is not an object). The handlers of \<^verbatim>\<open>transmit\<close>,
  \<^verbatim>\<open>error\<close> and \<^verbatim>\<open>release_segments\<close> take no callback: only whether they are
  registered matters.
\<close>

datatype yielded = YArray "msg option list" | YNullish | YOther bool

record handlers =
  on_receive :: "(msg \<Rightarrow> error option) option"
  on_transmit :: bool
  on_error :: bool
  on_receive_segment :: "(msg \<Rightarrow> error option) option"
  on_return_segments :: "(idval \<Rightarrow> error + yielded) option"
  on_release_segments :: bool

text \<open>
  A JavaScript object used as an index: property names with their values, in the order
  the names were added. \<open>AList.update\<close> overwrites a name in place or appends it.
  (\<^verbatim>\<open>for ... in\<close> enumerates names that are array indices first, in ascending order;
  nothing below depends on the order of enumeration beyond the number of names.)
\<close>

type_synonym 'v jsobj = "(string \<times> 'v) list"

record inst =
  store :: heap
  handlers :: handlers
  inbound_queue :: "nat list"
  outbound_queue :: "outbound list"
  deletion_index :: "nat jsobj"
  segment_cache :: "(nat list) jsobj"
  debug_enabled :: bool
  is_polling :: bool
  poll_interval :: int
  transmit_batch_size :: jsval
  delete_batch_size :: jsval
  tx_attempt_limit :: int
  clock :: int
  events :: "event list"

definition emit :: "event \<Rightarrow> inst \<Rightarrow> inst" where
  "emit e s = s\<lparr>events := events s @ [e]\<rparr>"

subsection \<open>initialize\<close>

record options =
  opt_interval :: jsval
  opt_transmit_batch_size :: jsval
  opt_delete_batch_size :: jsval
  opt_max_transmit_attempts :: jsval
  opt_debug :: jsval

text \<open>\<^verbatim>\<open>a || b\<close> on option values.\<close>

definition js_or :: "jsval \<Rightarrow> jsval \<Rightarrow> jsval" where
  "js_or a b = (if truthy a then a else b)"

text \<open>
  \<^verbatim>\<open>initialize\<close>. The current time \<open>now\<close> is not a field of the source's object; it is
  what the moment library reads when it is handed no timestamp.
\<close>

definition initialize :: "int \<Rightarrow> options \<Rightarrow> inst" where
  "initialize now opts =
     \<lparr>store = [],
      handlers = \<lparr>on_receive = None, on_transmit = False, on_error = False,
                  on_receive_segment = None, on_return_segments = None,
                  on_release_segments = False\<rparr>,
      inbound_queue = [],
      outbound_queue = [],
      deletion_index = [],
      segment_cache = [],
      debug_enabled = truthy (opt_debug opts),
      is_polling = False,
      poll_interval = (case opt_interval opts of JNum n \<Rightarrow> n * 1000 | _ \<Rightarrow> 5000),
      transmit_batch_size = js_or (opt_transmit_batch_size opts) (JNum 64),
      delete_batch_size = js_or (opt_delete_batch_size opts) (JNum 1024),
      tx_attempt_limit = (case opt_max_transmit_attempts opts of JNum n \<Rightarrow> n | _ \<Rightarrow> 2),
      clock = now,
      events = []\<rparr>"

section \<open>The outbound pipeline\<close>

text \<open>\<^verbatim>\<open>bs <= k\<close> for a batch size \<open>bs\<close> and a number \<open>k\<close>.\<close>

fun js_le :: "jsval \<Rightarrow> int \<Rightarrow> bool" where
  "js_le (JNum n) k = (n \<le> k)"
| "js_le (JBool b) k = ((if b then 1 else 0) \<le> k)"
| "js_le JNull k = (0 \<le> k)"
| "js_le JUndefined k = False"

fun transmission_args_from :: "jsval \<Rightarrow> int \<Rightarrow> outbound list \<Rightarrow> string list" where
  "transmission_args_from bs i [] = []"
| "transmission_args_from bs i (m # ms) =
     (if js_le bs (i + 1) then []
      else out_to m # out_content m # transmission_args_from bs (i + 1) ms)"

definition create_message_transmission_args :: "inst \<Rightarrow> outbound list \<Rightarrow> string list" where
  "create_message_transmission_args s messages =
     transmission_args_from (transmit_batch_size s) 0 messages"

text \<open>Arguments of \<^verbatim>\<open>send\<close>: a string or not; a function, another truthy value, or falsy.\<close>

datatype strarg = Str string | NotStr
datatype cbarg = CbFunction | CbOtherTruthy | CbFalsy

datatype send_error = BadCallback | BadDestination | BadMessageText

definition send :: "inst \<Rightarrow> strarg \<Rightarrow> strarg \<Rightarrow> cbarg \<Rightarrow> send_error + inst" where
  "send s to_arg message cb =
     (if cb = CbOtherTruthy then Inl BadCallback
      else
        (case to_arg of
           NotStr \<Rightarrow> Inl BadDestination
         | Str t \<Rightarrow>
             (case message of
                NotStr \<Rightarrow> Inl BadMessageText
              | Str c \<Rightarrow>
                  Inr (s\<lparr>outbound_queue := outbound_queue s @
                         [\<lparr>out_to = t, out_content = c, tx_attempts = 0,
                           callback = (cb = CbFunction)\<rparr>]\<rparr>))))"

text \<open>
  \<^verbatim>\<open>_notify_transmit\<close>. An outbound item has no \<^verbatim>\<open>id\<close>, so the branch that releases
  segments is never taken.
\<close>

definition notify_transmit :: "outbound \<Rightarrow> tx_result \<Rightarrow> inst \<Rightarrow> inst" where
  "notify_transmit m r s =
     (let s1 = (if callback m then emit (EvCallback None m) s else s)
      in if on_transmit (handlers s1) then emit (EvTransmit m r) s1 else s1)"

definition notify_transmit_error :: "error \<Rightarrow> outbound \<Rightarrow> inst \<Rightarrow> inst" where
  "notify_transmit_error e m s =
     (let s1 = (if callback m then emit (EvCallback (Some e) m) s else s)
      in if on_error (handlers s1) then emit (EvTransmitError e m) s1 else s1)"

text \<open>
  \<^verbatim>\<open>queue[i]\<close>: \<^verbatim>\<open>undefined\<close> outside the queue, and reading a property of
  \<^verbatim>\<open>undefined\<close> is a TypeError.
\<close>

definition queue_at :: "outbound list \<Rightarrow> int \<Rightarrow> outbound option" where
  "queue_at q i = (if 0 \<le> i \<and> i < int (length q) then Some (q ! nat i) else None)"

text \<open>
  The body of the loop of \<^verbatim>\<open>_deliver_transmit_results\<close> for one result. The second
  component is \<^verbatim>\<open>sent_indices\<close>, as the list of its keys.
\<close>

definition deliver_transmit_result ::
  "inst \<times> int list \<Rightarrow> tx_result \<Rightarrow> error + (inst \<times> int list)" where
  "deliver_transmit_result st r =
     (let s = fst st; sent = snd st; queue_index = r_index r - 1
      in if r_result r \<noteq> ''success'' then
           (case queue_at (outbound_queue s) queue_index of
              None \<Rightarrow> Inl TypeError
            | Some message \<Rightarrow>
                (let limit = tx_attempt_limit s;
                     attempts = (if tx_attempts message = 0 then 1 else tx_attempts message)
                 in if limit = 0 \<or> attempts < limit then
                      Inr (s\<lparr>outbound_queue := (outbound_queue s)
                               [nat queue_index := message\<lparr>tx_attempts := attempts + 1\<rparr>]\<rparr>,
                           sent)
                    else Inr (notify_transmit_error FailedToTransmit message s, sent)))
         else
           (case queue_at (outbound_queue s) queue_index of
              None \<Rightarrow> Inl TypeError
            | Some message \<Rightarrow> Inr (notify_transmit message r s, queue_index # sent)))"

fun deliver_each :: "inst \<times> int list \<Rightarrow> tx_result list \<Rightarrow> error + (inst \<times> int list)" where
  "deliver_each st [] = Inr st"
| "deliver_each st (r # rs) =
     (case deliver_transmit_result st r of
        Inl e \<Rightarrow> Inl e
      | Inr st' \<Rightarrow> deliver_each st' rs)"

text \<open>\<^verbatim>\<open>_.reject(queue, function (_msg, _i) { return sent_indices[_i]; })\<close>.\<close>

fun reject_sent :: "int list \<Rightarrow> int \<Rightarrow> outbound list \<Rightarrow> outbound list" where
  "reject_sent sent i [] = []"
| "reject_sent sent i (m # ms) =
     (if i \<in> set sent then reject_sent sent (i + 1) ms else m # reject_sent sent (i + 1) ms)"

definition deliver_transmit_results :: "inst \<Rightarrow> tx_result list \<Rightarrow> error + inst" where
  "deliver_transmit_results s results =
     (case deliver_each (s, []) results of
        Inl e \<Rightarrow> Inl e
      | Inr (s', sent) \<Rightarrow>
          Inr (s'\<lparr>outbound_queue := reject_sent sent 0 (outbound_queue s')\<rparr>))"

text \<open>
  A phase of the poll ends in one of three ways: an exception nobody catches (\<open>Inl\<close>), or
  its callback called with an error or without one. The helper's reply is an input: an
  error of the subprocess, or its parsed output.
\<close>

type_synonym phase_result = "error + (error option \<times> inst)"

definition transmit_messages :: "inst \<Rightarrow> error + tx_result list \<Rightarrow> phase_result" where
  "transmit_messages s reply =
     (if outbound_queue s = [] then Inr (None, s)
      else
        (let s1 = emit (Spawn (''send'' # create_message_transmission_args s (outbound_queue s))) s
         in case reply of
              Inl e \<Rightarrow> Inr (Some e, s1)
            | Inr results \<Rightarrow>
                (case deliver_transmit_results s1 results of
                   Inl e \<Rightarrow> Inl e
                 | Inr s2 \<Rightarrow> Inr (None, s2))))"

section \<open>The deletion pipeline\<close>

text \<open>\<^verbatim>\<open>if (!_.isArray(locations)) { locations = [ locations ]; }\<close>\<close>

fun as_array :: "locval \<Rightarrow> locval list" where
  "as_array (LArr ls) = ls"
| "as_array l = [l]"

definition message_index_add :: "heap \<Rightarrow> nat \<Rightarrow> nat jsobj \<Rightarrow> nat jsobj" where
  "message_index_add h r idx =
     fold (\<lambda>l. AList.update (key_of l) r) (as_array (location (h ! r))) idx"

definition message_index_lookup :: "heap \<Rightarrow> nat \<Rightarrow> nat jsobj \<Rightarrow> nat option" where
  "message_index_lookup h r idx = map_of idx (key_of (location (h ! r)))"

text \<open>
  \<^verbatim>\<open>_schedule_message_for_deletion\<close>: the index gets a reference to the message, then
  the message's \<^verbatim>\<open>location\<close> is overwritten with \<^verbatim>\<open>false\<close>.
\<close>

definition schedule_message_for_deletion :: "nat \<Rightarrow> inst \<Rightarrow> inst" where
  "schedule_message_for_deletion r s =
     s\<lparr>deletion_index := message_index_add (store s) r (deletion_index s),
       store := (store s)[r := (store s ! r)\<lparr>location := LFalse\<rparr>]\<rparr>"

fun deletion_args_from :: "jsval \<Rightarrow> int \<Rightarrow> string list \<Rightarrow> string list" where
  "deletion_args_from bs i [] = []"
| "deletion_args_from bs i (k # ks) =
     (if js_le bs (i + 1) then [] else k # deletion_args_from bs (i + 1) ks)"

definition create_message_deletion_args :: "inst \<Rightarrow> nat jsobj \<Rightarrow> string list" where
  "create_message_deletion_args s idx = deletion_args_from (delete_batch_size s) 0 (map fst idx)"

text \<open>
  The loop of \<^verbatim>\<open>_delete_messages\<close> over the old index; \<open>detail\<close> is the helper's
  verdict for each location it was given.
\<close>

fun keep_undeleted ::
  "heap \<Rightarrow> (string \<times> string) list \<Rightarrow> nat jsobj \<Rightarrow> nat jsobj \<Rightarrow> nat jsobj" where
  "keep_undeleted h detail [] undeleted = undeleted"
| "keep_undeleted h detail ((i, message) # rest) undeleted =
     keep_undeleted h detail rest
       (if map_of detail i \<noteq> Some ''ok'' then message_index_add h message undeleted
        else undeleted)"

text \<open>The reply to \<^verbatim>\<open>delete\<close>: \<open>None\<close> when the parsed output has no \<^verbatim>\<open>detail\<close>.\<close>

definition delete_messages ::
  "inst \<Rightarrow> error + (string \<times> string) list option \<Rightarrow> phase_result" where
  "delete_messages s reply =
     (if deletion_index s = [] then Inr (None, s)
      else
        (let s1 = emit (Spawn (''delete'' # create_message_deletion_args s (deletion_index s))) s
         in case reply of
              Inl e \<Rightarrow> Inr (Some e, s1)
            | Inr None \<Rightarrow> Inl TypeError
            | Inr (Some detail) \<Rightarrow>
                Inr (None,
                     s1\<lparr>deletion_index :=
                          keep_undeleted (store s1) detail (deletion_index s1) []\<rparr>)))"

section \<open>The inbound pipeline\<close>

definition transform_received_message :: "msg \<Rightarrow> msg" where
  "transform_received_message m =
     (let m1 =
        (case total_segments m of
           None \<Rightarrow> m
         | Some t \<Rightarrow>
             if 1 < t then
               m\<lparr>msg_id := IdStr (join ''-''
                    [msg_from m, show_int (case udh m of None \<Rightarrow> 0 | Some u \<Rightarrow> u), show_int t])\<rparr>
             else m)
      in case timestamp m1 of
           TAbsent \<Rightarrow> m1
         | TRaw t \<Rightarrow> m1\<lparr>timestamp := TMoment t\<rparr>
         | TMoment t \<Rightarrow> m1)"

text \<open>The property name an \<^verbatim>\<open>id\<close> gives in \<^verbatim>\<open>_segment_cache[id]\<close>.\<close>

fun id_key :: "idval \<Rightarrow> string" where
  "id_key (IdStr x) = x"
| "id_key IdFalse = ''false''"
| "id_key IdUndefined = ''undefined''"

definition notify_global_error :: "error \<Rightarrow> inst \<Rightarrow> inst" where
  "notify_global_error e s = (if on_error (handlers s) then emit (EvGlobalError e) s else s)"

definition notify_receive_error :: "error \<Rightarrow> nat \<Rightarrow> inst \<Rightarrow> inst" where
  "notify_receive_error e r s =
     (if on_error (handlers s) then emit (EvReceiveError e (store s ! r)) s else s)"

definition default_receive_segment :: "nat \<Rightarrow> inst \<Rightarrow> inst" where
  "default_receive_segment r s =
     (let k = id_key (msg_id (store s ! r));
          cached = (case map_of (segment_cache s) k of None \<Rightarrow> [] | Some rs \<Rightarrow> rs)
      in s\<lparr>segment_cache := AList.update k (cached @ [r]) (segment_cache s)\<rparr>)"

text \<open>
  \<^verbatim>\<open>_notify_receive_segment\<close> gives the error the handler reported, and whether a
  handler was registered (the caller's \<^verbatim>\<open>_should_delete\<close>).
\<close>

definition notify_receive_segment :: "nat \<Rightarrow> inst \<Rightarrow> error option \<times> bool \<times> inst" where
  "notify_receive_segment r s =
     (case on_receive_segment (handlers s) of
        None \<Rightarrow> (None, False, default_receive_segment r s)
      | Some f \<Rightarrow> (f (store s ! r), True, emit (EvReceiveSegment (store s ! r)) s))"

text \<open>The objects a handler yields are new to the store.\<close>

fun store_yielded :: "heap \<Rightarrow> msg option list \<Rightarrow> heap \<times> nat option list" where
  "store_yielded h [] = (h, [])"
| "store_yielded h (None # ms) =
     (case store_yielded h ms of (h', rs) \<Rightarrow> (h', None # rs))"
| "store_yielded h (Some m # ms) =
     (case store_yielded (h @ [m]) ms of (h', rs) \<Rightarrow> (h', Some (length h) # rs))"

definition request_return_segments :: "idval \<Rightarrow> inst \<Rightarrow> (error + segs) \<times> inst" where
  "request_return_segments i s =
     (case on_return_segments (handlers s) of
        None \<Rightarrow>
          (Inr (case map_of (segment_cache s) (id_key i) of
                  None \<Rightarrow> SNullish
                | Some rs \<Rightarrow> SArray (map Some rs)),
           s)
      | Some f \<Rightarrow>
          (let s1 = emit (EvReturnSegments i) s
           in case f i of
                Inl e \<Rightarrow> (Inl e, s1)
              | Inr YNullish \<Rightarrow> (Inr SNullish, s1)
              | Inr (YOther t) \<Rightarrow> (Inr (SOther t), s1)
              | Inr (YArray ms) \<Rightarrow>
                  (case store_yielded (store s1) ms of
                     (h', rs) \<Rightarrow> (Inr (SArray rs), s1\<lparr>store := h'\<rparr>))))"

text \<open>
  \<^verbatim>\<open>_try_to_reassemble_message\<close> gives an error, or the reference of the new composite,
  or \<open>None\<close> (the source's \<^verbatim>\<open>false\<close>) while parts are missing.
\<close>

definition try_to_reassemble_message :: "nat \<Rightarrow> inst \<Rightarrow> (error + nat option) \<times> inst" where
  "try_to_reassemble_message r s =
     (case request_return_segments (msg_id (store s ! r)) s of
        (Inl e, s1) \<Rightarrow> (Inl e, s1)
      | (Inr (SOther True), s1) \<Rightarrow> (Inl NonArrayYielded, s1)
      | (Inr segments, s1) \<Rightarrow>
          (case build_reassembly_index (clock s1) (store s1) r segments of
             Inl e \<Rightarrow> (Inl e, s1)
           | Inr idx \<Rightarrow>
               if Some (int (length idx)) = total_segments (store s1 ! r) then
                 (case create_message_from_reassembly_index (clock s1) (store s1) idx of
                    Inl e \<Rightarrow> (Inl e, s1)
                  | Inr rv \<Rightarrow> (Inr (Some (length (store s1))), s1\<lparr>store := store s1 @ [rv]\<rparr>))
               else (Inr None, s1)))"

text \<open>
  The two tasks of the waterfall that \<^verbatim>\<open>_receive_messages\<close> runs for a multi-part
  message. The second component of the state is the per-poll \<^verbatim>\<open>reassembly_index\<close>.
  The first task gives \<open>None\<close> when the handler reported an error (the waterfall stops
  and the error is notified), and \<^verbatim>\<open>_should_delete\<close> otherwise.
\<close>

definition first_task :: "nat \<Rightarrow> inst \<Rightarrow> bool option \<times> inst" where
  "first_task r s =
     (case notify_receive_segment r s of
        (Some e, should_delete, s1) \<Rightarrow> (None, notify_receive_error e r s1)
      | (None, should_delete, s1) \<Rightarrow> (Some should_delete, s1))"

definition second_task :: "nat \<Rightarrow> bool \<Rightarrow> inst \<times> nat jsobj \<Rightarrow> inst \<times> nat jsobj" where
  "second_task r should_delete st =
     (let s = fst st; reassembly_index = snd st
      in if message_index_lookup (store s) r reassembly_index \<noteq> None then st
         else
           (case try_to_reassemble_message r
                   (if should_delete then schedule_message_for_deletion r s else s) of
              (Inl e, s2) \<Rightarrow> (notify_receive_error e r s2, reassembly_index)
            | (Inr None, s2) \<Rightarrow> (s2, reassembly_index)
            | (Inr (Some m), s2) \<Rightarrow>
                (s2\<lparr>inbound_queue := inbound_queue s2 @ [m]\<rparr>,
                 message_index_add (store s2) m reassembly_index)))"

text \<open>
  The part of the iterator that runs before the waterfall: the transform, and the early
  exit of a single-part message. \<open>True\<close> when the message goes on to the waterfall. A
  retrieved record is an object, and on an object the transform does not throw, so the
  \<^verbatim>\<open>catch\<close> branch is never taken.
\<close>

definition is_single :: "msg \<Rightarrow> bool" where
  "is_single m = (case total_segments m of None \<Rightarrow> False | Some t \<Rightarrow> t \<le> 1)"

definition enter :: "nat \<Rightarrow> inst \<Rightarrow> bool \<times> inst" where
  "enter r s =
     (let s1 = s\<lparr>store := (store s)[r := transform_received_message (store s ! r)]\<rparr>
      in if is_single (store s1 ! r) then (False, s1\<lparr>inbound_queue := inbound_queue s1 @ [r]\<rparr>)
         else (True, s1))"

text \<open>
  The order of the tasks is the async library's. Where \<^verbatim>\<open>async.waterfall\<close> calls a task
  at once, each message is processed to its end before the next (\<open>each_in_turn\<close>). Where
  it puts every task off to a later turn of the event loop, the iterator runs for every
  message first, then the first task of every multi-part message, then their second tasks
  (\<open>each_deferred\<close>). The handlers call back at once in both.
\<close>

fun each_in_turn :: "nat list \<Rightarrow> inst \<times> nat jsobj \<Rightarrow> inst \<times> nat jsobj" where
  "each_in_turn [] st = st"
| "each_in_turn (r # rs) st =
     (case enter r (fst st) of
        (False, s1) \<Rightarrow> each_in_turn rs (s1, snd st)
      | (True, s1) \<Rightarrow>
          (case first_task r s1 of
             (None, s2) \<Rightarrow> each_in_turn rs (s2, snd st)
           | (Some should_delete, s2) \<Rightarrow>
               each_in_turn rs (second_task r should_delete (s2, snd st))))"

fun enter_all :: "nat list \<Rightarrow> inst \<Rightarrow> nat list \<times> inst" where
  "enter_all [] s = ([], s)"
| "enter_all (r # rs) s =
     (case enter r s of
        (multi, s1) \<Rightarrow>
          (case enter_all rs s1 of (ms, s2) \<Rightarrow> (if multi then r # ms else ms, s2)))"

fun first_tasks :: "nat list \<Rightarrow> inst \<Rightarrow> (nat \<times> bool) list \<times> inst" where
  "first_tasks [] s = ([], s)"
| "first_tasks (r # rs) s =
     (case first_task r s of
        (res, s1) \<Rightarrow>
          (case first_tasks rs s1 of
             (ps, s2) \<Rightarrow> ((case res of None \<Rightarrow> ps | Some d \<Rightarrow> (r, d) # ps), s2)))"

fun second_tasks :: "(nat \<times> bool) list \<Rightarrow> inst \<times> nat jsobj \<Rightarrow> inst \<times> nat jsobj" where
  "second_tasks [] st = st"
| "second_tasks ((r, d) # ps) st = second_tasks ps (second_task r d st)"

definition each_deferred :: "nat list \<Rightarrow> inst \<times> nat jsobj \<Rightarrow> inst \<times> nat jsobj" where
  "each_deferred rs st =
     (case enter_all rs (fst st) of
        (ms, s1) \<Rightarrow>
          (case first_tasks ms s1 of (ps, s2) \<Rightarrow> second_tasks ps (s2, snd st)))"

definition notify_receive :: "nat \<Rightarrow> inst \<Rightarrow> error option \<times> inst" where
  "notify_receive r s =
     (case on_receive (handlers s) of
        None \<Rightarrow> (Some NoReceiveHandler, notify_global_error NoReceiveHandler s)
      | Some f \<Rightarrow> (f (store s ! r), emit (EvReceive (store s ! r)) s))"

definition deliver_message :: "nat \<Rightarrow> inst \<Rightarrow> inst" where
  "deliver_message r s =
     (case notify_receive r s of
        (Some e, s1) \<Rightarrow> s1
      | (None, s1) \<Rightarrow> schedule_message_for_deletion r s1)"

definition deliver_incoming_messages :: "inst \<Rightarrow> inst" where
  "deliver_incoming_messages s = (fold deliver_message (inbound_queue s) s)\<lparr>inbound_queue := []\<rparr>"

text \<open>
  The per-message part of \<^verbatim>\<open>_receive_messages\<close>, up to the call of
  \<^verbatim>\<open>_deliver_incoming_messages\<close>: the parsed records become objects of the store.
\<close>

definition receive_each :: "bool \<Rightarrow> inst \<Rightarrow> msg list \<Rightarrow> inst" where
  "receive_each deferred s records =
     (let refs = [length (store s) ..< length (store s) + length records];
          s1 = s\<lparr>store := store s @ records\<rparr>
      in fst ((if deferred then each_deferred else each_in_turn) refs (s1, [])))"

definition receive_messages :: "bool \<Rightarrow> inst \<Rightarrow> error + msg list \<Rightarrow> error option \<times> inst" where
  "receive_messages deferred s reply =
     (let s1 = emit (Spawn [''retrieve'']) (s\<lparr>segment_cache := []\<rparr>)
      in case reply of
           Inl e \<Rightarrow> (Some e, s1)
         | Inr records \<Rightarrow> (None, deliver_incoming_messages (receive_each deferred s1 records)))"

subsection \<open>One poll\<close>

text \<open>
  \<^verbatim>\<open>_handle_polling_timeout\<close>: the three phases in order, each with the helper's reply
  to it; an error a phase calls back with goes to the global error handler.
\<close>

definition report :: "error option \<Rightarrow> inst \<Rightarrow> inst" where
  "report e s = (case e of None \<Rightarrow> s | Some x \<Rightarrow> notify_global_error x s)"

definition handle_polling_timeout ::
  "bool \<Rightarrow> inst \<Rightarrow> error + msg list \<Rightarrow> error + (string \<times> string) list option \<Rightarrow>
     error + tx_result list \<Rightarrow> error + inst" where
  "handle_polling_timeout deferred s retrieved deleted sent =
     (if \<not> is_polling s then Inr s
      else
        (case receive_messages deferred s retrieved of
           (e1, s1) \<Rightarrow>
             (case delete_messages (report e1 s1) deleted of
                Inl x \<Rightarrow> Inl x
              | Inr (e2, s2) \<Rightarrow>
                  (case transmit_messages (report e2 s2) sent of
                     Inl x \<Rightarrow> Inl x
                   | Inr (e3, s3) \<Rightarrow> Inr (report e3 s3)))))"

section \<open>Executions\<close>

text \<open>
  What an embedder does to the outbound queue, between polls: it calls \<^verbatim>\<open>send\<close>, and the
  poll runs a transmit phase on whatever the helper replies. An execution ends (\<open>None\<close>)
  where a call throws.
\<close>

datatype action = Send strarg strarg cbarg | Transmit "error + tx_result list"

fun step :: "inst \<Rightarrow> action \<Rightarrow> inst option" where
  "step s (Send t m cb) = (case send s t m cb of Inl e \<Rightarrow> None | Inr s' \<Rightarrow> Some s')"
| "step s (Transmit reply) =
     (case transmit_messages s reply of Inl e \<Rightarrow> None | Inr (e, s') \<Rightarrow> Some s')"

fun run :: "inst \<Rightarrow> action list \<Rightarrow> inst option" where
  "run s [] = Some s"
| "run s (a # as) = (case step s a of None \<Rightarrow> None | Some s' \<Rightarrow> run s' as)"



subsection \<open>Sample inputs\<close>

text \<open>
  A segment of a two-part message from \<^verbatim>\<open>+1\<close> with reference number 7, as the helper
  prints it: location, segment number, content and the two timestamps.
\<close>

definition ex_segment :: "int \<Rightarrow> int \<Rightarrow> string \<Rightarrow> tsval \<Rightarrow> tsval \<Rightarrow> msg" where
  "ex_segment l n c t st =
     \<lparr>location = LNum l, msg_from = ''+1'', content = c, udh = Some 7,
      segment = Some n, total_segments = Some 2, timestamp = t, smsc_timestamp = st,
      msg_id = IdUndefined, parts = []\<rparr>"

text \<open>A single-part message at a location.\<close>

definition ex_single :: "int \<Rightarrow> msg" where
  "ex_single l =
     \<lparr>location = LNum l, msg_from = ''+1'', content = ''hi'', udh = None,
      segment = Some 1, total_segments = Some 1, timestamp = TRaw 5, smsc_timestamp = TAbsent,
      msg_id = IdUndefined, parts = []\<rparr>"

text \<open>\<^verbatim>\<open>create({ max_transmit_attempts: n })\<close>.\<close>

definition ex_options :: "int \<Rightarrow> options" where
  "ex_options n =
     \<lparr>opt_interval = JUndefined, opt_transmit_batch_size = JUndefined,
      opt_delete_batch_size = JUndefined, opt_max_transmit_attempts = JNum n,
      opt_debug = JUndefined\<rparr>"

text \<open>A receive handler that takes every message.\<close>

definition accept :: "msg \<Rightarrow> error option" where
  "accept m = None"

text \<open>
  An instance with the default limit of two attempts, a \<^verbatim>\<open>receive\<close> handler that takes
  every message and an \<^verbatim>\<open>error\<close> handler.
\<close>

definition ex_instance :: inst where
  "ex_instance =
     (initialize 0 (ex_options 2))
       \<lparr>handlers := (handlers (initialize 0 (ex_options 2)))
                      \<lparr>on_receive := Some accept, on_error := True\<rparr>,
        is_polling := True\<rparr>"

definition ex_failure :: "error + tx_result list" where
  "ex_failure = Inr [\<lparr>r_index = 1, r_result = ''failure''\<rparr>]"

definition ex_item :: "int \<Rightarrow> outbound" where
  "ex_item n = \<lparr>out_to = ''+1'', out_content = ''x'', tx_attempts = n, callback = True\<rparr>"

text \<open>The instance after one poll whose retrieve printed three single-part messages.\<close>

definition ex_delivered :: inst where
  "ex_delivered =
     snd (receive_messages False ex_instance (Inr [ex_single 1, ex_single 2, ex_single 3]))"

text \<open>
  Segment \<open>n\<close> of a two-part message from \<open>f\<close> with reference number \<open>u\<close>, at location
  \<open>l\<close> with content \<open>c\<close>, as the helper prints it at the instant \<open>t\<close>, with no
  \<^verbatim>\<open>smsc_timestamp\<close>.
\<close>

definition two_part :: "string \<Rightarrow> int option \<Rightarrow> int \<Rightarrow> int \<Rightarrow> string \<Rightarrow> int \<Rightarrow> msg" where
  "two_part f u n l c t =
     \<lparr>location = LNum l, msg_from = f, content = c, udh = u,
      segment = Some n, total_segments = Some 2, timestamp = TRaw t, smsc_timestamp = TAbsent,
      msg_id = IdUndefined, parts = []\<rparr>"

text \<open>
  A new instance that polls, with a \<^verbatim>\<open>receive\<close> handler and no other:
  \<^verbatim>\<open>create(opts).on('receive', f).start()\<close>.
\<close>

definition listening :: "int \<Rightarrow> options \<Rightarrow> (msg \<Rightarrow> error option) \<Rightarrow> inst" where
  "listening now opts f =
     (initialize now opts)
       \<lparr>handlers := (handlers (initialize now opts))\<lparr>on_receive := Some f\<rparr>,
        is_polling := True\<rparr>"












section \<open>The outbound pipeline's counters and batches\<close>



lemma emit_queue [simp]:
  "outbound_queue (emit e s) = outbound_queue s"
  "tx_attempt_limit (emit e s) = tx_attempt_limit s"
  by (simp_all add: emit_def)

lemma notify_transmit_error_queue [simp]:
  "outbound_queue (notify_transmit_error e m s) = outbound_queue s"
  "tx_attempt_limit (notify_transmit_error e m s) = tx_attempt_limit s"
  by (simp_all add: notify_transmit_error_def Let_def)

lemma notify_transmit_queue [simp]:
  "outbound_queue (notify_transmit m r s) = outbound_queue s"
  "tx_attempt_limit (notify_transmit m r s) = tx_attempt_limit s"
  by (simp_all add: notify_transmit_def Let_def)













text \<open>
  Claim C2 (the code differs). \<^verbatim>\<open>send("+1", "x", callback)\<close> under
  \<^verbatim>\<open>max_transmit_attempts = 2\<close>, then two transmit phases to which the helper replies
  \<^verbatim>\<open>result: "failure"\<close>. The second failure calls the callback with the error and emits
  one error event, as claimed; but the item is still in the outbound queue after the
  phase (nothing marks it in \<^verbatim>\<open>sent_indices\<close>), and a third failure reports it again.
\<close>

theorem exhausted_item_stays_in_queue:
  "map_option outbound_queue
     (run ex_instance [Send (Str ''+1'') (Str ''x'') CbFunction,
                       Transmit ex_failure, Transmit ex_failure]) = Some [ex_item 2] \<and>
   map_option events
     (run ex_instance [Send (Str ''+1'') (Str ''x'') CbFunction,
                       Transmit ex_failure, Transmit ex_failure]) =
     Some [Spawn [''send'', ''+1'', ''x''], Spawn [''send'', ''+1'', ''x''],
           EvCallback (Some FailedToTransmit) (ex_item 2),
           EvTransmitError FailedToTransmit (ex_item 2)] \<and>
   map_option outbound_queue
     (run ex_instance [Send (Str ''+1'') (Str ''x'') CbFunction,
                       Transmit ex_failure, Transmit ex_failure, Transmit ex_failure]) =
     Some [ex_item 2] \<and>
   map_option events
     (run ex_instance [Send (Str ''+1'') (Str ''x'') CbFunction,
                       Transmit ex_failure, Transmit ex_failure, Transmit ex_failure]) =
     Some [Spawn [''send'', ''+1'', ''x''], Spawn [''send'', ''+1'', ''x''],
           EvCallback (Some FailedToTransmit) (ex_item 2),
           EvTransmitError FailedToTransmit (ex_item 2),
           Spawn [''send'', ''+1'', ''x''],
           EvCallback (Some FailedToTransmit) (ex_item 2),
           EvTransmitError FailedToTransmit (ex_item 2)]"
  by code_simp






section \<open>Options\<close>

text \<open>
  Claim C10. \<^verbatim>\<open>create(options)\<close> replaces a falsy \<^verbatim>\<open>transmit_batch_size\<close> (0 among
  them) by 64 and a falsy \<^verbatim>\<open>delete_batch_size\<close> by 1024, so neither batch size is ever
  the number 0. A \<^verbatim>\<open>max_transmit_attempts\<close> that is a number is taken as it is, 0
  included, and only a value that is not a number gives the default 2. Under a limit of
  0 a failed transmission of a queued item only raises its counter: no error is reported.
\<close>

theorem initialize_batch_sizes_and_limit:
  "(\<not> truthy (opt_transmit_batch_size opts) \<longrightarrow>
      transmit_batch_size (initialize now opts) = JNum 64) \<and>
   (\<not> truthy (opt_delete_batch_size opts) \<longrightarrow>
      delete_batch_size (initialize now opts) = JNum 1024) \<and>
   transmit_batch_size (initialize now opts) \<noteq> JNum 0 \<and>
   delete_batch_size (initialize now opts) \<noteq> JNum 0 \<and>
   (opt_max_transmit_attempts opts = JNum n \<longrightarrow> tx_attempt_limit (initialize now opts) = n) \<and>
   (\<not> isNumber (opt_max_transmit_attempts opts) \<longrightarrow>
      tx_attempt_limit (initialize now opts) = 2) \<and>
   (tx_attempt_limit s = 0 \<and> r_result r \<noteq> ''success'' \<and>
    queue_at (outbound_queue s) (r_index r - 1) = Some m \<longrightarrow>
      deliver_transmit_result (s, sent) r =
        Inr (s\<lparr>outbound_queue := (outbound_queue s)
                 [nat (r_index r - 1) :=
                    m\<lparr>tx_attempts := (if tx_attempts m = 0 then 1 else tx_attempts m) + 1\<rparr>]\<rparr>,
             sent))"
proof -
  have a: "transmit_batch_size (initialize now opts) \<noteq> JNum 0"
    by (cases "opt_transmit_batch_size opts") (simp_all add: initialize_def js_or_def)
  have b: "delete_batch_size (initialize now opts) \<noteq> JNum 0"
    by (cases "opt_delete_batch_size opts") (simp_all add: initialize_def js_or_def)
  have c: "\<not> isNumber (opt_max_transmit_attempts opts) \<longrightarrow>
      tx_attempt_limit (initialize now opts) = 2"
    by (cases "opt_max_transmit_attempts opts") (simp_all add: initialize_def)
  show ?thesis
    using a b c
    by (simp add: initialize_def js_or_def deliver_transmit_result_def Let_def)
qed

text \<open>
  The theorem at \<^verbatim>\<open>create({ transmit_batch_size: 0, delete_batch_size: 0,
  max_transmit_attempts: 0 })\<close>, and at a first failure under the limit 0.
\<close>

theorem initialize_batch_sizes_and_limit_witness:
  "\<not> truthy (JNum 0) \<and>
   transmit_batch_size (initialize 0 ((ex_options 0)
      \<lparr>opt_transmit_batch_size := JNum 0, opt_delete_batch_size := JNum 0\<rparr>)) = JNum 64 \<and>
   delete_batch_size (initialize 0 ((ex_options 0)
      \<lparr>opt_transmit_batch_size := JNum 0, opt_delete_batch_size := JNum 0\<rparr>)) = JNum 1024 \<and>
   tx_attempt_limit (initialize 0 ((ex_options 0)
      \<lparr>opt_transmit_batch_size := JNum 0, opt_delete_batch_size := JNum 0\<rparr>)) = 0 \<and>
   deliver_transmit_result
     ((initialize 0 (ex_options 0))\<lparr>outbound_queue := [ex_item 0]\<rparr>, [])
     \<lparr>r_index = 1, r_result = ''failure''\<rparr> =
     Inr ((initialize 0 (ex_options 0))\<lparr>outbound_queue := [ex_item 2]\<rparr>, [])"
  using initialize_batch_sizes_and_limit[of
      "(ex_options 0)\<lparr>opt_transmit_batch_size := JNum 0, opt_delete_batch_size := JNum 0\<rparr>"
      0 0 "(initialize 0 (ex_options 0))\<lparr>outbound_queue := [ex_item 0]\<rparr>"
      "\<lparr>r_index = 1, r_result = ''failure''\<rparr>" "ex_item 0" "[]"]
  by (simp add: ex_options_def ex_item_def initialize_def queue_at_def)

section \<open>The reassembly engine on its inputs\<close>

lemma show_int_small:
  "show_int 0 = ''0''" "show_int 2 = ''2''" "show_int 7 = ''7''"
  by (simp_all add: show_int_def show_nat.simps)

lemma transform_ex_segment:
  "transform_received_message (ex_segment l n c (TRaw t) st) =
     (ex_segment l n c (TMoment t) st)\<lparr>msg_id := IdStr ''+1-7-2''\<rparr>"
  by (simp add: transform_received_message_def ex_segment_def show_int_small)

text \<open>
  Claim C5 (the code differs). A candidate with the trigger's \<^verbatim>\<open>id\<close> and
  \<^verbatim>\<open>total_segments\<close> and with segment number 0 is not rejected: the check is
  \<^verbatim>\<open>_m.segment <= total\<close> with no lower bound, so the call returns true and the index
  gets a slot 0. Here the store holds segment 1 (the trigger, reference 0) and a record
  with segment number 0 (reference 1), both as the transform leaves them. In a poll that
  retrieves both parts of the message and such a record between them, slot 0 makes the
  index look full early (a receive error for a missing entry) and too full later, so the
  message is never delivered.
\<close>

theorem segment_zero_is_accepted:
  "add_to_reassembly_index now
     (map transform_received_message
        [ex_segment 10 1 ''a'' (TRaw 5) TAbsent, ex_segment 11 0 ''b'' (TRaw 5) TAbsent])
     [] 0 (Some 1) = Inr (True, [(0, 1)]) \<and>
   events (snd (receive_messages False ex_instance
     (Inr [ex_segment 10 1 ''Hello '' (TRaw 5) TAbsent,
           ex_segment 12 0 ''stray'' (TRaw 5) TAbsent,
           ex_segment 11 2 ''world'' (TRaw 6) TAbsent]))) =
     [Spawn [''retrieve''],
      EvReceiveError MissingEntry
        ((ex_segment 12 0 ''stray'' (TMoment 5) TAbsent)\<lparr>msg_id := IdStr ''+1-7-2''\<rparr>)]"
proof -
  have a: "add_to_reassembly_index now
     (map transform_received_message
        [ex_segment 10 1 ''a'' (TRaw 5) TAbsent, ex_segment 11 0 ''b'' (TRaw 5) TAbsent])
     [] 0 (Some 1) = Inr (True, [(0, 1)])"
    by (simp add: transform_received_message_def ex_segment_def show_int_small
        add_to_reassembly_index_def is_valid_def)
  have b: "events (snd (receive_messages False ex_instance
     (Inr [ex_segment 10 1 ''Hello '' (TRaw 5) TAbsent,
           ex_segment 12 0 ''stray'' (TRaw 5) TAbsent,
           ex_segment 11 2 ''world'' (TRaw 6) TAbsent]))) =
     [Spawn [''retrieve''],
      EvReceiveError MissingEntry
        (transform_received_message (ex_segment 12 0 ''stray'' (TRaw 5) TAbsent))]"
    by code_simp
  show ?thesis using a b by (simp add: transform_ex_segment)
qed

text \<open>
  Claim C4 (the code differs). \<^verbatim>\<open>_transform_received_message\<close> parses \<^verbatim>\<open>timestamp\<close>
  only; \<^verbatim>\<open>smsc_timestamp\<close> stays the string the helper printed. Materializing a
  composite from a full index whose first part has an \<^verbatim>\<open>smsc_timestamp\<close> calls
  \<^verbatim>\<open>isBefore\<close> on that string and throws, so no composite is returned; in the receive
  phase the two parts of such a message produce a receive error and no delivery.
\<close>

theorem composite_with_smsc_timestamp_throws:
  "smsc_timestamp (transform_received_message (ex_segment 10 1 ''Hello '' (TRaw 5) (TRaw 5))) =
     TRaw 5 \<and>
   create_message_from_reassembly_index now
     (map transform_received_message
        [ex_segment 10 1 ''Hello '' (TRaw 5) (TRaw 5), ex_segment 11 2 ''world'' (TRaw 6) (TRaw 6)])
     [(1, 0), (2, 1)] = Inl TypeError \<and>
   events (snd (receive_messages False ex_instance
     (Inr [ex_segment 10 1 ''Hello '' (TRaw 5) (TRaw 5),
           ex_segment 11 2 ''world'' (TRaw 6) (TRaw 6)]))) =
     [Spawn [''retrieve''],
      EvReceiveError TypeError
        ((ex_segment 11 2 ''world'' (TMoment 6) (TRaw 6))\<lparr>msg_id := IdStr ''+1-7-2''\<rparr>)]"
proof -
  have a: "create_message_from_reassembly_index now
     (map transform_received_message
        [ex_segment 10 1 ''Hello '' (TRaw 5) (TRaw 5), ex_segment 11 2 ''world'' (TRaw 6) (TRaw 6)])
     [(1, 0), (2, 1)] = Inl TypeError"
    by (simp add: transform_received_message_def ex_segment_def show_int_small
        create_message_from_reassembly_index_def use_latest_def upto.simps)
  have b: "events (snd (receive_messages False ex_instance
     (Inr [ex_segment 10 1 ''Hello '' (TRaw 5) (TRaw 5),
           ex_segment 11 2 ''world'' (TRaw 6) (TRaw 6)]))) =
     [Spawn [''retrieve''],
      EvReceiveError TypeError
        ((ex_segment 11 2 ''world'' (TMoment 6) (TRaw 6))\<lparr>msg_id := IdStr ''+1-7-2''\<rparr>)]"
    by code_simp
  show ?thesis using a b by (simp add: transform_ex_segment) (simp add: ex_segment_def)
qed

section \<open>The deletion index\<close>

text \<open>
  Claim C1 (the code differs). Three delivered messages at the locations 1, 2 and 3 are
  in the deletion index under \<^verbatim>\<open>"1"\<close>, \<^verbatim>\<open>"2"\<close> and \<^verbatim>\<open>"3"\<close>, and the helper is asked
  to delete the three. On the reply \<^verbatim>\<open>{detail: {"1": "ok", "2": "fail", "3": "ok"}}\<close>
  the locations 1 and 3 leave the index, but the message of location 2 is put back under
  the property name \<^verbatim>\<open>"false"\<close>: \<^verbatim>\<open>_message_index_add\<close> reads the key from the
  message's \<^verbatim>\<open>location\<close>, which \<^verbatim>\<open>_schedule_message_for_deletion\<close> has overwritten.
  The next delete phase asks the helper to delete \<^verbatim>\<open>false\<close>.
\<close>

theorem undeleted_entry_is_rekeyed_false:
  "deletion_index ex_delivered = [(''1'', 0), (''2'', 1), (''3'', 2)] \<and>
   (case delete_messages ex_delivered
           (Inr (Some [(''1'', ''ok''), (''2'', ''fail''), (''3'', ''ok'')])) of
      Inl e \<Rightarrow> None
    | Inr (e, s) \<Rightarrow>
        Some (deletion_index s, create_message_deletion_args s (deletion_index s))) =
     Some ([(''false'', 1)], [''false''])"
  by code_simp

section \<open>Reassembly across polls\<close>

lemma show_int_two: "show_int 2 = ''2''"
  by (simp add: show_int_def show_nat.simps)

lemmas receive_defs =
  receive_messages_def receive_each_def each_deferred_def enter_def first_task_def
  second_task_def notify_receive_segment_def default_receive_segment_def
  message_index_lookup_def try_to_reassemble_message_def request_return_segments_def
  build_reassembly_index_def add_to_reassembly_index_def is_valid_def
  create_message_from_reassembly_index_def use_latest_def deliver_incoming_messages_def
  deliver_message_def notify_receive_def schedule_message_for_deletion_def
  message_index_add_def emit_def transform_received_message_def is_single_def
  notify_receive_error_def notify_global_error_def

text \<open>
  Claim C3, as the code has it. A new instance with a \<^verbatim>\<open>receive\<close> handler \<open>f\<close> and the
  built-in segment store; \<open>pa\<close> and \<open>pb\<close> are the two parts of a message, each with a
  timestamp and no \<^verbatim>\<open>smsc_timestamp\<close>. Poll 1 retrieves \<open>pa\<close> alone: the whole poll calls
  no handler and spawns no \<^verbatim>\<open>delete\<close>, and leaves the deletion index and the inbound
  queue empty. The segment cache is emptied when a receive phase starts, so a second
  poll that retrieves \<open>pb\<close> alone delivers nothing either. A second poll that retrieves
  \<open>pa\<close> again (it is still on the modem) and \<open>pb\<close> hands the composite \<open>c\<close> to the
  \<^verbatim>\<open>receive\<close> handler, once; if the handler takes it, both part locations are in the
  deletion index, and they are its only entries.
\<close>

theorem two_part_reassembly_across_polls:
  assumes "pa = two_part fr u 1 la ca ta" and "pb = two_part fr u 2 lb cb tb"
    and "sa = snd (receive_messages d (listening now opts f) (Inr [pa]))"
    and "sb = snd (receive_messages d sa (Inr [pa, pb]))"
    and "c = \<lparr>location = LArr [LNum la, LNum lb], msg_from = fr, content = ca @ cb, udh = u,
               segment = None, total_segments = Some 2, timestamp = TMoment (max ta tb),
               smsc_timestamp = TAbsent, msg_id = IdFalse, parts = [1, 2]\<rparr>"
  shows "handle_polling_timeout d (listening now opts f) (Inr [pa]) deleted sent = Inr sa \<and>
         events sa = [Spawn [''retrieve'']] \<and> deletion_index sa = [] \<and>
         inbound_queue sa = [] \<and>
         events (snd (receive_messages d sa (Inr [pb]))) =
           [Spawn [''retrieve''], Spawn [''retrieve'']] \<and>
         deletion_index (snd (receive_messages d sa (Inr [pb]))) = [] \<and>
         events sb = [Spawn [''retrieve''], Spawn [''retrieve''], EvReceive c] \<and>
         (f c = None \<longrightarrow>
            map_of (deletion_index sb) (show_int la) = Some 3 \<and>
            map_of (deletion_index sb) (show_int lb) = Some 3 \<and>
            set (map fst (deletion_index sb)) = {show_int la, show_int lb} \<and>
            store sb ! 3 = c\<lparr>location := LFalse\<rparr>)"
proof -
  let ?L = "listening now opts f"
  let ?S1 = "?L\<lparr>store := [transform_received_message pa],
        segment_cache := [(id_key (msg_id (transform_received_message pa)), [0])],
        events := [Spawn [''retrieve'']]\<rparr>"
  have rm: "receive_messages d ?L (Inr [pa]) = (None, ?S1)"
    unfolding assms
    by (cases d)
       (simp_all add: receive_defs listening_def two_part_def initialize_def show_int_two Let_def)
  then have sa: "sa = ?S1" using assms(3) by simp
  have first_poll: "handle_polling_timeout d ?L (Inr [pa]) deleted sent = Inr sa"
    unfolding sa
    by (simp add: handle_polling_timeout_def rm report_def delete_messages_def
        transmit_messages_def)
       (simp add: listening_def initialize_def)
  have quiet: "events sa = [Spawn [''retrieve'']] \<and> deletion_index sa = [] \<and> inbound_queue sa = []"
    unfolding sa by (simp add: listening_def initialize_def)
  have lone: "events (snd (receive_messages d sa (Inr [pb]))) =
           [Spawn [''retrieve''], Spawn [''retrieve'']] \<and>
         deletion_index (snd (receive_messages d sa (Inr [pb]))) = []"
    unfolding sa assms
    by (cases d)
       (simp_all add: receive_defs listening_def two_part_def initialize_def show_int_two Let_def)
  let ?C = "\<lambda>t. \<lparr>location = LArr [LNum la, LNum lb], msg_from = fr, content = ca @ cb, udh = u,
               segment = None, total_segments = Some 2, timestamp = TMoment t,
               smsc_timestamp = TAbsent, msg_id = IdFalse, parts = [Suc 0, Suc (Suc 0)]\<rparr>"
  have c: "c = ?C (if ta < tb then tb else ta)"
    unfolding assms(5) by (simp add: max_def eval_nat_numeral)
  have both: "events sb = [Spawn [''retrieve''], Spawn [''retrieve''], EvReceive c]"
    unfolding assms(4) sa c unfolding assms
    by (cases d; cases "f (?C ta)"; cases "f (?C tb)"; cases "ta < tb")
       (simp_all add: receive_defs listening_def two_part_def initialize_def show_int_two Let_def
          upto.simps)
  have queued: "f c = None \<Longrightarrow>
            map_of (deletion_index sb) (show_int la) = Some 3 \<and>
            map_of (deletion_index sb) (show_int lb) = Some 3 \<and>
            set (map fst (deletion_index sb)) = {show_int la, show_int lb} \<and>
            store sb ! 3 = c\<lparr>location := LFalse\<rparr>"
    unfolding assms(4) sa c unfolding assms
    by (cases d; cases "ta < tb")
       (auto simp add: receive_defs listening_def two_part_def initialize_def show_int_two Let_def
          upto.simps eval_nat_numeral)
  from first_poll quiet lone both queued show ?thesis by blast
qed

text \<open>
  The theorem at the sample message: parts at the locations 10 and 11, \<^verbatim>\<open>"Hello "\<close> and
  \<^verbatim>\<open>"world"\<close>, and a handler that takes every message.
\<close>

theorem two_part_reassembly_across_polls_witness:
  "events (snd (receive_messages False
      (snd (receive_messages False (listening 0 (ex_options 2) accept)
              (Inr [two_part ''+1'' (Some 7) 1 10 ''Hello '' 5])))
      (Inr [two_part ''+1'' (Some 7) 1 10 ''Hello '' 5,
            two_part ''+1'' (Some 7) 2 11 ''world'' 6]))) =
     [Spawn [''retrieve''], Spawn [''retrieve''],
      EvReceive \<lparr>location = LArr [LNum 10, LNum 11], msg_from = ''+1'',
                 content = ''Hello world'', udh = Some 7, segment = None,
                 total_segments = Some 2, timestamp = TMoment 6, smsc_timestamp = TAbsent,
                 msg_id = IdFalse, parts = [1, 2]\<rparr>] \<and>
   map_of (deletion_index (snd (receive_messages False
      (snd (receive_messages False (listening 0 (ex_options 2) accept)
              (Inr [two_part ''+1'' (Some 7) 1 10 ''Hello '' 5])))
      (Inr [two_part ''+1'' (Some 7) 1 10 ''Hello '' 5,
            two_part ''+1'' (Some 7) 2 11 ''world'' 6])))) ''10'' = Some 3 \<and>
   map_of (deletion_index (snd (receive_messages False
      (snd (receive_messages False (listening 0 (ex_options 2) accept)
              (Inr [two_part ''+1'' (Some 7) 1 10 ''Hello '' 5])))
      (Inr [two_part ''+1'' (Some 7) 1 10 ''Hello '' 5,
            two_part ''+1'' (Some 7) 2 11 ''world'' 6])))) ''11'' = Some 3"
  using two_part_reassembly_across_polls[where d = False and now = 0 and opts = "ex_options 2"
      and f = accept and fr = "''+1''" and u = "Some 7" and la = 10 and ca = "''Hello ''"
      and ta = 5 and lb = 11 and cb = "''world''" and tb = 6, OF refl refl refl refl refl]
  by (simp add: accept_def show_int_def show_nat.simps)

text \<open>
  Claim C3 as stated fails: when the second poll retrieves segment 2 alone, the cache no
  longer holds segment 1, and nothing is delivered or scheduled for deletion. Two whole
  polls of the sample instance, in either order of the tasks.
\<close>

theorem lone_second_segment_is_not_delivered:
  "(case handle_polling_timeout False ex_instance
           (Inr [ex_segment 10 1 ''Hello '' (TRaw 5) TAbsent]) (Inr (Some [])) (Inr []) of
      Inl e \<Rightarrow> None
    | Inr s1 \<Rightarrow>
        (case handle_polling_timeout False s1
                (Inr [ex_segment 11 2 ''world'' (TRaw 6) TAbsent]) (Inr (Some [])) (Inr []) of
           Inl e \<Rightarrow> None
         | Inr s2 \<Rightarrow> Some (events s2, deletion_index s2, inbound_queue s2))) =
     Some ([Spawn [''retrieve''], Spawn [''retrieve'']], [], []) \<and>
   (case handle_polling_timeout True ex_instance
           (Inr [ex_segment 10 1 ''Hello '' (TRaw 5) TAbsent]) (Inr (Some [])) (Inr []) of
      Inl e \<Rightarrow> None
    | Inr s1 \<Rightarrow>
        (case handle_polling_timeout True s1
                (Inr [ex_segment 11 2 ''world'' (TRaw 6) TAbsent]) (Inr (Some [])) (Inr []) of
           Inl e \<Rightarrow> None
         | Inr s2 \<Rightarrow> Some (events s2, deletion_index s2, inbound_queue s2))) =
     Some ([Spawn [''retrieve''], Spawn [''retrieve'']], [], [])"
  by code_simp

section \<open>Locations of queued messages\<close>


subsection \<open>The built-in segment store keeps locations\<close>













lemma notify_receive_error_fields [simp]:
  "store (notify_receive_error e r s) = store s"
  "handlers (notify_receive_error e r s) = handlers s"
  "inbound_queue (notify_receive_error e r s) = inbound_queue s"
  "segment_cache (notify_receive_error e r s) = segment_cache s"
  by (simp_all add: notify_receive_error_def emit_def)











section \<open>The reassembly index and the order of the segments\<close>

















end
